theory Spec2Isabelle
  imports Main "HOL-Library.List_Lexorder"
begin

section \<open>Python strings\<close>

text \<open>
  A Python \<^verbatim>\<open>str\<close> is a sequence of Unicode code points: \<^verbatim>\<open>len\<close> counts code points,
  slicing cuts at code points and \<^verbatim>\<open><\<close> compares code point by code point. The source
  works on Hebrew text, so a string is modelled as the list of its code points. Literals
  of the source are transcribed code point by code point; ASCII literals are written
  through \<open>ascii\<close>.
\<close>

type_synonym pystr = "nat list"

definition ascii :: "string \<Rightarrow> pystr" where
  "ascii s = map of_char s"

text \<open>\<^verbatim>\<open>s.startswith(k)\<close>\<close>

definition startswith :: "pystr \<Rightarrow> pystr \<Rightarrow> bool" where
  "startswith s k = (take (length k) s = k)"

text \<open>\<^verbatim>\<open>k in s\<close> on strings: \<open>k\<close> occurs in \<open>s\<close> as a contiguous substring.\<close>

primrec py_in :: "pystr \<Rightarrow> pystr \<Rightarrow> bool" where
  "py_in k [] = (k = [])"
| "py_in k (c # s) = (startswith (c # s) k \<or> py_in k s)"

text \<open>\<^verbatim>\<open>any(k in s for k in ks)\<close>\<close>

definition any_in :: "pystr list \<Rightarrow> pystr \<Rightarrow> bool" where
  "any_in ks s = list_ex (\<lambda>k. py_in k s) ks"

section \<open>The model capability\<close>

text \<open>
  Every stage calls \<^verbatim>\<open>self.anthropic_client.messages.create(...)\<close> and reads
  \<^verbatim>\<open>response.content[0].text\<close> inside a \<^verbatim>\<open>try\<close>. The provider is external: it is an
  oracle that answers the n-th call of a run with a text or with an error (a transport
  error, a malformed response, a client that was never initialised). The oracle receives
  the call's index, so two calls with the same request may be answered differently. A
  prompt is kept as the template that was formatted together with its arguments. The
  calls made are logged in order.
\<close>

datatype prompt =
    RelevancePrompt pystr pystr
  | ResearchPrompt pystr pystr
  | RetryPrompt pystr
  | AnalysisPrompt pystr pystr
  | JournalisticPrompt pystr

text \<open>The temperature is kept in tenths (0.1 is 1); \<open>None\<close> when the call passes none.\<close>

record request =
  req_model :: string
  max_tokens :: nat
  temperature :: "nat option"
  req_prompt :: prompt

datatype llm_error = LlmError pystr

type_synonym llm = "nat \<Rightarrow> request \<Rightarrow> llm_error + pystr"

definition messages_create :: "llm \<Rightarrow> request list \<Rightarrow> request \<Rightarrow> (llm_error + pystr) \<times> request list" where
  "messages_create m calls req = (m (length calls) req, calls @ [req])"

definition haiku :: string where
  "haiku = ''claude-3-haiku-20240307''"

section \<open>Stage 1: relevance (process\_articles.py, check\_article\_relevance)\<close>

text \<open>The five denylisted category keywords: sport, entertainment, business, routine, economic.\<close>

definition non_relevant_keywords :: "pystr list" where
  "non_relevant_keywords =
    [[1505, 1508, 1493, 1512, 1496],
     [1489, 1497, 1491, 1493, 1512],
     [1506, 1505, 1511, 1497, 1501],
     [1513, 1490, 1512, 1514, 1497],
     [1499, 1500, 1499, 1500, 1497]]"

definition relevance_request :: "pystr \<Rightarrow> pystr \<Rightarrow> request" where
  "relevance_request article_content article_title =
     \<lparr>req_model = haiku, max_tokens = 200, temperature = Some 1,
      req_prompt = RelevancePrompt article_title (take 2000 article_content)\<rparr>"

definition check_article_relevance ::
  "llm \<Rightarrow> request list \<Rightarrow> pystr \<Rightarrow> pystr \<Rightarrow> (bool \<times> pystr) \<times> request list" where
  "check_article_relevance m calls article_content article_title =
     (case messages_create m calls (relevance_request article_content article_title) of
        (Inr relevance_text, calls') \<Rightarrow>
          ((\<not> any_in non_relevant_keywords relevance_text, relevance_text), calls')
      | (Inl e, calls') \<Rightarrow>
          ((True, ascii ''Error in checking relevance''), calls'))"

section \<open>Stage 2: research with a quality gate (verify\_research\_quality, research\_topic)\<close>

definition quality_indicators :: "pystr list" where
  "quality_indicators =
    [[1502, 1511, 1493, 1512, 1493, 1514, 32, 1513, 1504, 1502, 1510, 1488, 1493],
     [1500, 1508, 1497, 32, 1491, 1497, 1493, 1493, 1495],
     [1506, 1500, 32, 1508, 1497],
     [1502, 1514, 1493, 1498, 32, 1499, 1514, 1489, 1492],
     [1492, 1510, 1492, 1512, 1492, 32, 1513, 1500],
     [1500, 1491, 1489, 1512, 1497],
     [1489, 1506, 1497, 1514, 1493, 1503],
     [1489, 1488, 1514, 1512]]"

text \<open>The "nothing found" marker the research prompt asks the model to write.\<close>

definition not_found_marker :: pystr where
  "not_found_marker = [1500, 1488, 32, 1502, 1510, 1488, 1514, 1497]"

definition verify_research_quality :: "pystr \<Rightarrow> bool" where
  "verify_research_quality research_result =
     (let has_sources = any_in quality_indicators research_result;
          is_too_short = (length research_result < 150);
          is_generic = py_in not_found_marker research_result
      in has_sources \<and> \<not> is_too_short \<and> \<not> is_generic)"

definition research_request :: "pystr \<Rightarrow> pystr \<Rightarrow> request" where
  "research_request main_topic article_summary =
     \<lparr>req_model = haiku, max_tokens = 1500, temperature = Some 3,
      req_prompt = ResearchPrompt main_topic article_summary\<rparr>"

definition retry_request :: "pystr \<Rightarrow> request" where
  "retry_request main_topic =
     \<lparr>req_model = haiku, max_tokens = 1500, temperature = None,
      req_prompt = RetryPrompt main_topic\<rparr>"

definition research_topic :: "llm \<Rightarrow> request list \<Rightarrow> pystr \<Rightarrow> pystr \<Rightarrow> pystr \<times> request list" where
  "research_topic m calls main_topic article_summary =
     (case messages_create m calls (research_request main_topic article_summary) of
        (Inl e, calls') \<Rightarrow> (ascii ''Research failed'', calls')
      | (Inr research_result, calls') \<Rightarrow>
          if \<not> verify_research_quality research_result then
            (case messages_create m calls' (retry_request main_topic) of
               (Inl e, calls'') \<Rightarrow> (ascii ''Research failed'', calls'')
             | (Inr retry_result, calls'') \<Rightarrow> (retry_result, calls''))
          else (research_result, calls'))"

section \<open>Stages 3 and 4 (create\_technical\_analysis, create\_journalistic\_article)\<close>





section \<open>The four-stage pipeline (analyze\_article\_with\_anthropic)\<close>

text \<open>
  The result is a Python dict with string keys, built in the order of the source; it is
  kept as an association list and read with \<open>map_of\<close>. \<open>processed_at\<close> is the ISO text
  of the clock at that moment, passed in.
\<close>

datatype jvalue = JStr pystr | JBool bool | JDict "(string \<times> jvalue) list"

type_synonym pydict = "(string \<times> jvalue) list"


section \<open>Dates and times\<close>

text \<open>
  A naive \<^verbatim>\<open>datetime\<close> object. The constructor raises \<^verbatim>\<open>ValueError\<close> on fields out of
  range; that is \<open>None\<close> here. The functions below follow CPython's \<^verbatim>\<open>datetime\<close> module:
  the proleptic Gregorian ordinal of a date, and the difference of two naive datetimes
  in microseconds.
\<close>

record datetime =
  year :: nat
  month :: nat
  day :: nat
  hour :: nat
  minute :: nat
  second :: nat
  microsecond :: nat

definition is_leap :: "nat \<Rightarrow> bool" where
  "is_leap y = (y mod 4 = 0 \<and> (y mod 100 \<noteq> 0 \<or> y mod 400 = 0))"

definition days_in_month :: "nat \<Rightarrow> nat \<Rightarrow> nat" where
  "days_in_month y m =
     (if m = 2 \<and> is_leap y then 29
      else [0, 31, 28, 31, 30, 31, 30, 31, 31, 30, 31, 30, 31] ! m)"

definition py_datetime :: "nat \<Rightarrow> nat \<Rightarrow> nat \<Rightarrow> nat \<Rightarrow> nat \<Rightarrow> datetime option" where
  "py_datetime y m d h mi =
     (if 1 \<le> y \<and> y \<le> 9999 \<and> 1 \<le> m \<and> m \<le> 12 \<and> 1 \<le> d \<and> d \<le> days_in_month y m
         \<and> h \<le> 23 \<and> mi \<le> 59
      then Some \<lparr>year = y, month = m, day = d, hour = h, minute = mi,
                 second = 0, microsecond = 0\<rparr>
      else None)"

definition days_before_year :: "nat \<Rightarrow> int" where
  "days_before_year y =
     (let y1 = int y - 1 in y1 * 365 + y1 div 4 - y1 div 100 + y1 div 400)"

definition days_before_month :: "nat \<Rightarrow> nat \<Rightarrow> int" where
  "days_before_month y m =
     int ([0, 0, 31, 59, 90, 120, 151, 181, 212, 243, 273, 304, 334] ! m)
       + (if m > 2 \<and> is_leap y then 1 else 0)"

definition toordinal :: "datetime \<Rightarrow> int" where
  "toordinal dt = days_before_year (year dt) + days_before_month (year dt) (month dt) + int (day dt)"

text \<open>\<^verbatim>\<open>a - b\<close> for naive datetimes, as the number of microseconds of the timedelta.\<close>

definition sub_micros :: "datetime \<Rightarrow> datetime \<Rightarrow> int" where
  "sub_micros a b =
     (let days = toordinal a - toordinal b;
          secs = (int (second a) + int (minute a) * 60 + int (hour a) * 3600)
               - (int (second b) + int (minute b) * 60 + int (hour b) * 3600);
          us = int (microsecond a) - int (microsecond b)
      in (days * 86400 + secs) * 1000000 + us)"

text \<open>
  \<^verbatim>\<open>is_within_24_hours\<close> (filter\_recent.py): \<^verbatim>\<open>None\<close> is rejected; otherwise
  \<^verbatim>\<open>(now - article_datetime).total_seconds() <= 86400\<close>. \<^verbatim>\<open>total_seconds\<close> is the
  correctly rounded quotient of the microsecond count by \<open>10^6\<close>; 86400 is a float, and a
  count that differs from \<open>86400 * 10^6\<close> by a whole microsecond is rounded to a
  different float, so the comparison is the comparison of the microsecond counts.
  \<open>now\<close> is the reading of the clock.
\<close>

definition is_within_24_hours :: "datetime \<Rightarrow> datetime option \<Rightarrow> bool" where
  "is_within_24_hours now article_datetime =
     (case article_datetime of
        None \<Rightarrow> False
      | Some t \<Rightarrow> sub_micros now t \<le> 86400 * 1000000)"

text \<open>Decimal text of a number, and the same padded with zeros to a width.\<close>

fun decimal :: "nat \<Rightarrow> pystr" where
  "decimal n = (if n < 10 then [48 + n] else decimal (n div 10) @ [48 + n mod 10])"

definition zpad :: "nat \<Rightarrow> nat \<Rightarrow> pystr" where
  "zpad w n = replicate (w - length (decimal n)) 48 @ decimal n"

text \<open>\<^verbatim>\<open>dt.isoformat()\<close>: the fraction is printed only when the microseconds are not zero.\<close>

definition isoformat :: "datetime \<Rightarrow> pystr" where
  "isoformat dt =
     zpad 4 (year dt) @ ascii ''-'' @ zpad 2 (month dt) @ ascii ''-'' @ zpad 2 (day dt)
       @ ascii ''T'' @ zpad 2 (hour dt) @ ascii '':'' @ zpad 2 (minute dt)
       @ ascii '':'' @ zpad 2 (second dt)
       @ (if microsecond dt = 0 then [] else ascii ''.'' @ zpad 6 (microsecond dt))"

text \<open>\<^verbatim>\<open>dt.strftime('%Y-%m-%d %H:%M:%S')\<close>, for years of four digits.\<close>

definition strftime :: "datetime \<Rightarrow> pystr" where
  "strftime dt =
     zpad 4 (year dt) @ ascii ''-'' @ zpad 2 (month dt) @ ascii ''-'' @ zpad 2 (day dt)
       @ ascii '' '' @ zpad 2 (hour dt) @ ascii '':'' @ zpad 2 (minute dt)
       @ ascii '':'' @ zpad 2 (second dt)"

section \<open>Character classes and the regular expressions of datetime recovery\<close>

text \<open>
  On \<^verbatim>\<open>str\<close> patterns \<^verbatim>\<open>\d\<close> matches every Unicode decimal digit and \<^verbatim>\<open>\s\<close> every
  Unicode whitespace character, and \<^verbatim>\<open>int\<close> reads every decimal digit. Below 128 the
  classes are written out; above, they are the tables of the interpreter's Unicode
  database, taken as a parameter.
\<close>

record unicode_tables =
  decimal_of :: "nat \<Rightarrow> nat option"
  whitespace :: "nat \<Rightarrow> bool"

definition digit_val :: "unicode_tables \<Rightarrow> nat \<Rightarrow> nat option" where
  "digit_val U c =
     (if 48 \<le> c \<and> c \<le> 57 then Some (c - 48)
      else if c < 128 then None
      else decimal_of U c)"

definition is_space :: "unicode_tables \<Rightarrow> nat \<Rightarrow> bool" where
  "is_space U c =
     (if c < 128 then c \<in> {9, 10, 11, 12, 13, 28, 29, 30, 31, 32}
      else whitespace U c)"

text \<open>\<^verbatim>\<open>int(s)\<close> on a text of decimal digits (\<open>None\<close>: \<^verbatim>\<open>ValueError\<close>).\<close>

fun int_digits :: "unicode_tables \<Rightarrow> nat \<Rightarrow> pystr \<Rightarrow> nat option" where
  "int_digits U acc [] = Some acc"
| "int_digits U acc (c # s) =
     (case digit_val U c of
        None \<Rightarrow> None
      | Some v \<Rightarrow> int_digits U (acc * 10 + v) s)"

definition py_int :: "unicode_tables \<Rightarrow> pystr \<Rightarrow> nat option" where
  "py_int U s = (if s = [] then None else int_digits U 0 s)"

text \<open>
  The three patterns of datetime recovery are sequences of a character class repeated
  greedily between a least and a greatest number of times, some of them captured as a
  group. \<^verbatim>\<open>re.search\<close> tries the start positions from left to right; at one position
  each repetition first takes as many characters as it may and gives them back one by
  one when the rest of the pattern fails.
\<close>

datatype cclass = Digit | Space | Lit nat

record piece =
  cls :: cclass
  at_least :: nat
  at_most :: "nat option"
  captured :: bool

fun in_class :: "unicode_tables \<Rightarrow> cclass \<Rightarrow> nat \<Rightarrow> bool" where
  "in_class U Digit c = (digit_val U c \<noteq> None)"
| "in_class U Space c = is_space U c"
| "in_class U (Lit l) c = (c = l)"

text \<open>The repetition counts a piece may take at the head of \<open>s\<close>, the largest first.\<close>

definition counts :: "unicode_tables \<Rightarrow> piece \<Rightarrow> pystr \<Rightarrow> nat list" where
  "counts U p s =
     (let run = length (takeWhile (in_class U (cls p)) s);
          top = (case at_most p of None \<Rightarrow> run | Some h \<Rightarrow> min h run)
      in rev [at_least p ..< Suc top])"

fun first_some :: "'a option list \<Rightarrow> 'a option" where
  "first_some [] = None"
| "first_some (None # xs) = first_some xs"
| "first_some (Some x # xs) = Some x"

text \<open>A match anchored at the head of the text: the captured groups, in order.\<close>

fun match_here :: "unicode_tables \<Rightarrow> piece list \<Rightarrow> pystr \<Rightarrow> pystr list option" where
  "match_here U [] s = Some []"
| "match_here U (p # ps) s =
     first_some (map (\<lambda>k. case match_here U ps (drop k s) of
                             None \<Rightarrow> None
                           | Some groups \<Rightarrow> Some (if captured p then take k s # groups else groups))
                     (counts U p s))"

fun re_search :: "unicode_tables \<Rightarrow> piece list \<Rightarrow> pystr \<Rightarrow> pystr list option" where
  "re_search U ps [] = match_here U ps []"
| "re_search U ps (c # s) =
     (case match_here U ps (c # s) of
        Some groups \<Rightarrow> Some groups
      | None \<Rightarrow> re_search U ps s)"

definition capture :: "cclass \<Rightarrow> nat \<Rightarrow> nat \<Rightarrow> piece" where
  "capture c lo hi = \<lparr>cls = c, at_least = lo, at_most = Some hi, captured = True\<rparr>"

definition lit :: "nat \<Rightarrow> piece" where
  "lit c = \<lparr>cls = Lit c, at_least = 1, at_most = Some 1, captured = False\<rparr>"

text \<open>\<^verbatim>\<open>(\d{1,2})\.(\d{1,2})\.(\d{2})\s+(\d{1,2}):(\d{2})\<close>\<close>

definition date_time_pattern :: "piece list" where
  "date_time_pattern =
     [capture Digit 1 2, lit 46, capture Digit 1 2, lit 46, capture Digit 2 2,
      \<lparr>cls = Space, at_least = 1, at_most = None, captured = False\<rparr>,
      capture Digit 1 2, lit 58, capture Digit 2 2]"

text \<open>\<^verbatim>\<open>(\d{1,2})\.(\d{1,2})\.(\d{2})\<close>\<close>

definition date_pattern :: "piece list" where
  "date_pattern = [capture Digit 1 2, lit 46, capture Digit 1 2, lit 46, capture Digit 2 2]"

text \<open>\<^verbatim>\<open>(\d{1,2}):(\d{2})\<close>\<close>

definition time_pattern :: "piece list" where
  "time_pattern = [capture Digit 1 2, lit 58, capture Digit 2 2]"

section \<open>Datetime recovery (filter\_recent.py, extract\_actual\_datetime\_from\_row)\<close>

text \<open>
  \<^verbatim>\<open>datetime(int(year), int(month), int(day), int(hour), int(minute))\<close> inside
  \<^verbatim>\<open>try ... except ValueError\<close>: \<open>None\<close> when a conversion or the constructor raises.
\<close>

definition try_datetime ::
  "unicode_tables \<Rightarrow> pystr \<Rightarrow> pystr \<Rightarrow> pystr \<Rightarrow> pystr \<Rightarrow> pystr \<Rightarrow> datetime option" where
  "try_datetime U y m d h mi =
     (case (py_int U y, py_int U m, py_int U d, py_int U h, py_int U mi) of
        (Some y', Some m', Some d', Some h', Some mi') \<Rightarrow> py_datetime y' m' d' h' mi'
      | _ \<Rightarrow> None)"

text \<open>
  The part of the function after the combined pattern did not return: the separate date
  and time patterns, the date alone with the clock's time, the time alone with the
  clock's date. The branches are one \<^verbatim>\<open>if ... elif ... elif\<close>, so a branch whose
  constructor raises ends in "no datetime found".
\<close>

definition separate_strategies :: "unicode_tables \<Rightarrow> datetime \<Rightarrow> pystr \<Rightarrow> datetime option" where
  "separate_strategies U now row_text =
     (case (re_search U date_pattern row_text, re_search U time_pattern row_text) of
        (Some [d, m, y], Some [h, mi]) \<Rightarrow> try_datetime U (ascii ''20'' @ y) m d h mi
      | (Some [d, m, y], None) \<Rightarrow>
          (case (py_int U (ascii ''20'' @ y), py_int U m, py_int U d) of
             (Some y', Some m', Some d') \<Rightarrow> py_datetime y' m' d' (hour now) (minute now)
           | _ \<Rightarrow> None)
      | (None, Some [h, mi]) \<Rightarrow>
          (case (py_int U h, py_int U mi) of
             (Some h', Some mi') \<Rightarrow> py_datetime (year now) (month now) (day now) h' mi'
           | _ \<Rightarrow> None)
      | _ \<Rightarrow> None)"

definition extract_actual_datetime_from_row ::
  "unicode_tables \<Rightarrow> datetime \<Rightarrow> pystr \<Rightarrow> datetime option" where
  "extract_actual_datetime_from_row U now row_text =
     (case re_search U date_time_pattern row_text of
        Some [d, m, y, h, mi] \<Rightarrow>
          (case try_datetime U (ascii ''20'' @ y) m d h mi of
             Some dt \<Rightarrow> Some dt
           | None \<Rightarrow> separate_strategies U now row_text)
      | _ \<Rightarrow> separate_strategies U now row_text)"

section \<open>The store\<close>

text \<open>
  The listing yields candidates (\<^verbatim>\<open>get_live_forum_page\<close>): dicts with the keys
  \<^verbatim>\<open>title\<close>, \<^verbatim>\<open>url\<close>, \<^verbatim>\<open>scraped_at\<close>, \<^verbatim>\<open>row_text\<close> and \<^verbatim>\<open>actual_datetime\<close>, the
  last a datetime object. Processing adds the content keys and overwrites
  \<^verbatim>\<open>actual_datetime\<close> with text. The two uses of that key are two fields here:
  \<open>listed_datetime\<close> is the object of the listing (\<open>None\<close> when the key is absent or
  falsy, which the processing loop tests for), \<open>actual_datetime\<close> the text.
\<close>

record candidate =
  title :: pystr
  url :: pystr
  scraped_at :: pystr
  row_text :: pystr
  listed_datetime :: "datetime option"

record article = candidate +
  content :: pystr
  clean_content :: pystr
  content_length :: nat
  date_time :: pystr
  actual_datetime :: pystr

text \<open>
  A row of \<^verbatim>\<open>news_items\<close>: the inserted columns of the article, the fingerprint, and the
  processing columns (\<^verbatim>\<open>isProcessed\<close>: 0 unprocessed, 1 relevant, 2 not relevant;
  \<^verbatim>\<open>process_data\<close>: empty, or the JSON text of the analysis, kept as the dict it encodes).
  The table declares \<^verbatim>\<open>url\<close> and \<^verbatim>\<open>hash_id\<close> unique.
\<close>

record news_row =
  row_id :: nat
  item :: article
  hash_id :: pystr
  isProcessed :: nat
  process_data :: "pydict option"

text \<open>
  Every access to the store sits in a \<^verbatim>\<open>try\<close>: connecting or executing may raise. The
  store says which kinds of statement raise.
\<close>

datatype statement = SelectByUrl | SelectByTitle | SelectByHash | InsertItem | UpdateItem

datatype db_error = OperationalError | IntegrityError

record store =
  rows :: "news_row list"
  faulty :: "statement \<Rightarrow> bool"

text \<open>\<^verbatim>\<open>SELECT COUNT(*) FROM news_items WHERE ...\<close>\<close>

definition select_count :: "store \<Rightarrow> statement \<Rightarrow> (news_row \<Rightarrow> bool) \<Rightarrow> db_error + nat" where
  "select_count st stmt cond =
     (if faulty st stmt then Inl OperationalError
      else Inr (length (filter cond (rows st))))"

section \<open>Deduplication (filter\_recent.py)\<close>

text \<open>
  \<^verbatim>\<open>generate_article_hash\<close>: \<^verbatim>\<open>hashlib.md5(f"{title}{url}".encode('utf-8')).hexdigest()\<close>.
  The digest of the UTF-8 encoding of a text is a library function, taken as a parameter.
\<close>

definition generate_article_hash :: "(pystr \<Rightarrow> pystr) \<Rightarrow> pystr \<Rightarrow> pystr \<Rightarrow> pystr" where
  "generate_article_hash md5 title' url' = md5 (title' @ url')"

definition is_article_exists :: "store \<Rightarrow> pystr \<Rightarrow> bool" where
  "is_article_exists st h =
     (case select_count st SelectByHash (\<lambda>r. hash_id r = h) of
        Inr count \<Rightarrow> count > 0
      | Inl e \<Rightarrow> False)"

definition check_article_exists_in_db :: "store \<Rightarrow> pystr \<Rightarrow> pystr \<Rightarrow> bool" where
  "check_article_exists_in_db st title' url' =
     (case select_count st SelectByUrl (\<lambda>r. url (item r) = url') of
        Inl e \<Rightarrow> False
      | Inr url_count \<Rightarrow>
          if url_count > 0 then True
          else (case select_count st SelectByTitle (\<lambda>r. title (item r) = title') of
                  Inl e \<Rightarrow> False
                | Inr title_count \<Rightarrow> title_count > 0))"

text \<open>
  \<^verbatim>\<open>INSERT INTO news_items ...\<close>: raises when the store is faulty and when a unique
  column would be repeated; otherwise the row is appended with the next id.
\<close>

definition insert_item :: "store \<Rightarrow> article \<Rightarrow> pystr \<Rightarrow> db_error + store" where
  "insert_item st a h =
     (if faulty st InsertItem then Inl OperationalError
      else if list_ex (\<lambda>r. url (item r) = url a \<or> hash_id r = h) (rows st) then Inl IntegrityError
      else Inr (st\<lparr>rows := rows st @
                  [\<lparr>row_id = Suc (fold max (map row_id (rows st)) 0), item = a, hash_id = h,
                    isProcessed = 0, process_data = None\<rparr>]\<rparr>))"

definition save_article_to_db :: "(pystr \<Rightarrow> pystr) \<Rightarrow> store \<Rightarrow> article \<Rightarrow> bool \<times> store" where
  "save_article_to_db md5 st article_data =
     (let h = generate_article_hash md5 (title article_data) (url article_data)
      in if is_article_exists st h then (False, st)
         else (case insert_item st article_data h of
                 Inr st' \<Rightarrow> (True, st')
               | Inl e \<Rightarrow> (False, st)))"

section \<open>Persisting the analysis (process\_articles.py, update\_article\_as\_processed)\<close>




section \<open>The content cleaner (filter\_recent.py, clean\_article\_content)\<close>

text \<open>
  The cleaner's patterns use lazy repetition, look-ahead and the multi-line flag. The
  pattern library is a parameter: \<open>re_sub pattern repl multiline s\<close> is
  \<^verbatim>\<open>re.sub(pattern, repl, s)\<close> (with \<^verbatim>\<open>flags=re.MULTILINE\<close> when \<open>multiline\<close>), and
  \<open>re_match pattern s\<close> says whether \<^verbatim>\<open>re.match(pattern, s)\<close> found a match. The
  patterns are the texts of the source.
\<close>

record regex_lib =
  re_sub :: "pystr \<Rightarrow> pystr \<Rightarrow> bool \<Rightarrow> pystr \<Rightarrow> pystr"
  re_match :: "pystr \<Rightarrow> pystr \<Rightarrow> bool"

text \<open>\<^verbatim>\<open>s.split('\n')\<close>, \<^verbatim>\<open>sep.join(ls)\<close> and \<^verbatim>\<open>s.strip()\<close>\<close>

fun split_on :: "nat \<Rightarrow> pystr \<Rightarrow> pystr list" where
  "split_on sep [] = [[]]"
| "split_on sep (c # s) =
     (if c = sep then [] # split_on sep s
      else (case split_on sep s of
              [] \<Rightarrow> [[c]]
            | l # ls \<Rightarrow> (c # l) # ls))"

fun join :: "pystr \<Rightarrow> pystr list \<Rightarrow> pystr" where
  "join sep [] = []"
| "join sep [l] = l"
| "join sep (l # ls) = l @ sep @ join sep ls"

definition strip :: "unicode_tables \<Rightarrow> pystr \<Rightarrow> pystr" where
  "strip U s = rev (dropWhile (is_space U) (rev (dropWhile (is_space U) s)))"

text \<open>The navigation keywords (the same list in \<^verbatim>\<open>is_forum_navigation\<close> and in the cleaner).\<close>

definition navigation_keywords :: "pystr list" where
  "navigation_keywords =
    [[1489, 1497, 1514, 32, 1492, 1502, 1491, 1512, 1513],
     [1492, 1512, 1490, 1506, 32, 1511, 1504, 1497, 1514, 1497],
     [1489, 1504, 1497, 32, 1492, 45, 50, 48],
     [1505, 1511, 1493, 1508, 1497, 1501],
     [1488, 1513, 1499, 1493, 1500, 32, 1502, 1505, 1508, 1512],
     [1489, 1495, 1512, 32, 1508, 1493, 1512, 1493, 1501],
     [1504, 1493, 1513, 1488, 32, 35],
     [1495, 1489, 1512, 32, 1502, 1514, 1488, 1512, 1497, 1498],
     [1492, 1493, 1491, 1506, 1493, 1514],
     [1502, 1491, 1512, 1490, 1497, 1501],
     [1504, 1511, 1493, 1491, 1493, 1514],
     [1512, 1488, 1492, 32, 1502, 1513, 1493, 1489],
     [1502, 1504, 1492, 1500],
     [1505, 1490, 1503, 32, 1492, 1502, 1504, 1492, 1500],
     [1502, 1508, 1511, 1495],
     [1506, 1497, 1514, 1493, 1504, 1488, 1497],
     [1510, 1500, 34, 1513],
     [1499, 1493, 1514, 1512, 1493, 1514],
     [1513, 1506, 1492],
     [1492, 1499, 1493, 1514, 1489],
     [1488, 1500, 32, 1500, 1493, 1489, 1497],
     [1492, 1495, 1493, 1508, 1513, 1492, 32, 1492, 1489, 1488, 1492],
     [1500, 1493, 1495, 32, 1513, 1504, 1492, 32, 1506, 1489, 1512, 1497],
     [68, 111, 119, 110, 108, 111, 97, 100, 115],
     [1513, 1497, 1514, 1493, 1507],
     [1502, 1493, 1494, 1497, 1511, 1492],
     [1505, 1512, 1496, 1497, 1501],
     [1510, 1497, 1500, 1493, 1501],
     [1502, 1493, 1496, 1493, 1512, 1497, 1511, 1492],
     [1500, 1493, 1489, 1497],
     [1495, 1493, 1508, 1513, 1492],
     [66, 111, 111, 107, 105, 110, 103, 46, 99, 111, 109],
     [75, 105, 119, 105],
     [83, 107, 121, 115, 99, 97, 110, 110, 101, 114],
     [84, 114, 105, 112, 65, 100, 118, 105, 115, 111, 114],
     [1490, 1497, 1512, 1505, 1514, 32, 1492, 1491, 1508, 1505, 1492],
     [1511, 1489, 1493, 1510, 1493, 1514, 32, 1491, 1497, 1493, 1503],
     [1488, 1500, 32, 1500, 1493, 1489, 1497, 32, 1492, 1508, 1493, 1512, 1493, 1502, 1497,
      1501],
     [1492, 1495, 1493, 1508, 1513, 1492, 32, 1492, 1489, 1488, 1492, 32, 1513, 1500, 1498,
      32, 1502, 1514, 1495, 1497, 1500, 1492, 32, 1499, 1488, 1503],
     [45, 45, 45, 45, 45, 45, 45, 45],
     [1489, 1497, 1511, 1493, 1512, 1514, 32, 1514, 1511, 1513, 1493, 1512, 1514],
     [1506, 1497, 1514, 1493, 1504, 1493, 1514, 32, 1494, 1512, 1492],
     [1492, 1508, 1493, 1512, 1493, 1501, 32, 1492, 1488, 1511, 1505, 1511, 1500, 1493, 1505,
      1497, 1489, 1497],
     [1489, 1497, 1496, 1511, 1493, 1497, 1503, 32, 1493, 1502, 1496, 1489, 1506, 1493, 1514,
      32, 1511, 1512, 1497, 1508, 1496, 1493],
     [1499, 1493, 1513, 1512, 32, 1493, 1508, 1497, 1514, 1493, 1495, 32, 1490, 1493, 1507]]"

text \<open>The boilerplate patterns, the URL pattern and the pattern of three or more line breaks.\<close>

definition forum_patterns :: "pystr list" where
  "forum_patterns =
    [[1489, 1497, 1514, 32, 1492, 1502, 1491, 1512, 1513, 91, 92, 115, 92, 83, 93, 42, 63,
      1505, 1511, 1493, 1508, 1497, 1501, 91, 92, 115, 92, 83, 93, 42, 63, 1488, 1513, 1499,
      1493, 1500, 32, 1502, 1505, 1508, 1512, 91, 92, 115, 92, 83, 93, 42, 63, 92, 100, 43,
      91, 92, 115, 92, 83, 93, 42, 63, 91, 94, 1488, 45, 1514, 93, 42, 63, 91, 1488, 45, 1514,
      93, 43, 91, 94, 1488, 45, 1514, 93, 42, 63, 92, 100, 123, 50, 125, 58, 92, 100, 123, 50,
      125, 91, 92, 115, 92, 83, 93, 42, 63, 92, 100, 123, 50, 125, 92, 46, 92, 100, 123, 50,
      125, 92, 46, 92, 100, 123, 50, 125],
     [1489, 1495, 1512, 32, 1508, 1493, 1512, 1493, 1501, 91, 92, 115, 92, 83, 93, 42, 63,
      1505, 1511, 1493, 1508, 1497, 1501],
     [1504, 1493, 1513, 1488, 32, 35, 92, 100, 43],
     [1506, 1512, 1499, 1514, 1497, 32, 1500, 1488, 1495, 1512, 1493, 1504, 1492, 46, 42, 63,
      1489, 1489, 1512, 1499, 1492, 46, 42, 63],
     [1495, 1489, 1512, 32, 1502, 1514, 1488, 1512, 1497, 1498, 46, 42, 63, 1492, 1493, 1491,
      1506, 1493, 1514, 46, 42, 63, 1502, 1491, 1512, 1490, 1497, 1501, 46, 42, 63, 1504,
      1511, 1493, 1491, 1493, 1514, 46, 42, 63, 1512, 1488, 1492, 32, 1502, 1513, 1493, 1489],
     [1497, 1493, 1501, 46, 42, 63, 1499, 46, 42, 63, 1489, 1488, 1489, 46, 42, 63, 1514,
      1513, 1508, 46, 42, 63],
     [1502, 1504, 1492, 1500, 91, 92, 115, 92, 83, 93, 42, 63, 1510, 1500, 34, 1513],
     [1489, 1497, 1511, 1493, 1512, 1514, 32, 1514, 1511, 1513, 1493, 1512, 1514, 91, 92, 115,
      92, 83, 93, 42, 63, 40, 63, 61, 92, 110, 124, 36, 41],
     [1506, 1497, 1514, 1493, 1504, 1493, 1514, 32, 1494, 1512, 1492, 91, 92, 115, 92, 83, 93,
      42, 63, 40, 63, 61, 92, 110, 124, 36, 41],
     [1492, 1508, 1493, 1512, 1493, 1501, 32, 1492, 1488, 1511, 1505, 1511, 1500, 1493, 1505,
      1497, 1489, 1497, 91, 92, 115, 92, 83, 93, 42, 63, 40, 63, 61, 92, 110, 124, 36, 41],
     [1489, 1497, 1496, 1511, 1493, 1497, 1503, 32, 1493, 1502, 1496, 1489, 1506, 1493, 1514,
      32, 1511, 1512, 1497, 1508, 1496, 1493, 91, 92, 115, 92, 83, 93, 42, 63, 40, 63, 61, 92,
      110, 124, 36, 41],
     [1499, 1493, 1513, 1512, 32, 1493, 1508, 1497, 1514, 1493, 1495, 32, 1490, 1493, 1507,
      91, 92, 115, 92, 83, 93, 42, 63, 40, 63, 61, 92, 110, 124, 36, 41],
     [104, 116, 116, 112, 115, 63, 58, 47, 47, 91, 94, 92, 115, 93, 43],
     [92, 110, 123, 51, 44, 125]]"

definition no_content_placeholder :: pystr where
  "no_content_placeholder = [1488, 1497, 1503, 32, 1514, 1493, 1499, 1503, 32, 1494, 1502, 1497, 1503]"

definition link_placeholder :: pystr where
  "link_placeholder =
     [1514, 1493, 1499, 1503, 32, 1494, 1502, 1497, 1503, 32, 1489, 1511, 1497, 1513, 1493, 1512,
      32, 1492, 1502, 1511, 1493, 1512, 1497]"

text \<open>
  The patterns of a line that is only a time, only a date, only one Hebrew word, only
  punctuation.
\<close>

definition bare_line_patterns :: "pystr list" where
  "bare_line_patterns =
     [[94, 92, 100, 123, 50, 125, 58, 92, 100, 123, 50, 125, 36],
      [94, 92, 100, 123, 50, 125, 92, 46, 92, 100, 123, 50, 125, 92, 46, 92, 100, 123, 50, 125, 36],
      [94, 91, 1488, 45, 1514, 93, 43, 36],
      [94, 91, 44, 92, 39, 92, 34, 93, 43, 36]]"

definition separator_line_pattern :: pystr where
  "separator_line_pattern = [94, 92, 115, 42, 91, 45, 61, 93, 43, 92, 115, 42, 36]"

definition hebrew_word_line_pattern :: pystr where
  "hebrew_word_line_pattern = [94, 92, 115, 42, 91, 1488, 45, 1514, 93, 43, 92, 115, 42, 36]"

definition newlines_pattern :: pystr where
  "newlines_pattern = [92, 110, 123, 51, 44, 125]"

definition is_forum_navigation :: "pystr \<Rightarrow> bool" where
  "is_forum_navigation line = any_in navigation_keywords line"

definition meaningful_line :: "regex_lib \<Rightarrow> unicode_tables \<Rightarrow> pystr \<Rightarrow> bool" where
  "meaningful_line re U line =
     (let trimmed_line = strip U line
      in if length trimmed_line < 10 \<or> any_in navigation_keywords trimmed_line then False
         else if list_ex (\<lambda>p. re_match re p trimmed_line) bare_line_patterns then False
         else True)"

definition clean_article_content :: "regex_lib \<Rightarrow> unicode_tables \<Rightarrow> pystr \<Rightarrow> pystr" where
  "clean_article_content re U content' =
     (if content' = [] then no_content_placeholder
      else
        let c1 = fold (\<lambda>pattern c. re_sub re pattern [] False c) forum_patterns content';
            lines = split_on 10 c1;
            meaningful_lines = filter (meaningful_line re U) lines;
            c2 = strip U (join [10] meaningful_lines);
            c3 = re_sub re separator_line_pattern [] True c2;
            c4 = re_sub re hebrew_word_line_pattern [] True c3;
            c5 = re_sub re newlines_pattern [10, 10] False c4;
            c6 = (if length c5 > 1000 then take 1000 c5 @ ascii ''...'' else c5)
        in if c6 = [] then link_placeholder else c6)"

section \<open>The ingestion cycle (filter\_recent.py, scrape\_live\_news)\<close>

text \<open>
  \<^verbatim>\<open>get_live_article_content(url)\<close> fetches and parses a page: it returns the body text
  and the datetime recovered from the page, \<^verbatim>\<open>(None, None)\<close> when anything raises. The
  page is external; the function is an oracle over the position of the candidate in the
  cycle and its url.
\<close>

type_synonym page_fetch = "nat \<Rightarrow> pystr \<Rightarrow> pystr option \<times> datetime option"

text \<open>The body of the loop for a candidate whose page gave content.\<close>

definition with_content :: "regex_lib \<Rightarrow> unicode_tables \<Rightarrow> candidate \<Rightarrow> pystr \<Rightarrow> datetime option \<Rightarrow> article" where
  "with_content re U c content' article_datetime =
     (let cleaned_content = clean_article_content re U content';
          (date_time', actual_datetime') =
             (case article_datetime of
                Some original_datetime \<Rightarrow> (strftime original_datetime, isoformat original_datetime)
              | None \<Rightarrow>
                 (case listed_datetime c of
                    Some original_datetime \<Rightarrow> (strftime original_datetime, isoformat original_datetime)
                  | None \<Rightarrow> (ascii ''Unknown'', ascii ''Unknown'')))
      in candidate.extend c
           (article.fields content' cleaned_content (length cleaned_content) date_time' actual_datetime'))"

text \<open>
  The loop over the candidates: the dedup pre-check, the fetch, the cleaning, the save. An
  item with content is appended to the batch whatever \<^verbatim>\<open>save_article_to_db\<close> returned.
\<close>

fun process_candidates ::
  "regex_lib \<Rightarrow> unicode_tables \<Rightarrow> (pystr \<Rightarrow> pystr) \<Rightarrow> page_fetch \<Rightarrow> nat \<Rightarrow> store \<Rightarrow> candidate list
     \<Rightarrow> article list \<times> store" where
  "process_candidates re U md5 fetch i st [] = ([], st)"
| "process_candidates re U md5 fetch i st (c # cs) =
     (if check_article_exists_in_db st (title c) (url c)
      then process_candidates re U md5 fetch (Suc i) st cs
      else (case fetch i (url c) of
              (Some content', article_datetime) \<Rightarrow>
                if content' \<noteq> [] then
                  (let a = with_content re U c content' article_datetime;
                       (saved, st') = save_article_to_db md5 st a;
                       (events, st'') = process_candidates re U md5 fetch (Suc i) st' cs
                   in (a # events, st''))
                else process_candidates re U md5 fetch (Suc i) st cs
            | (None, article_datetime) \<Rightarrow> process_candidates re U md5 fetch (Suc i) st cs))"

text \<open>
  \<^verbatim>\<open>xs.sort(key=k, reverse=True)\<close>: CPython reverses the list, sorts it stably in
  ascending order of the key and reverses the result, so that equal keys keep their order.
  The keys here are texts, compared code point by code point.
\<close>

definition sort_reverse :: "('a \<Rightarrow> pystr) \<Rightarrow> 'a list \<Rightarrow> 'a list" where
  "sort_reverse k xs = rev (sort_key k (rev xs))"


section \<open>Sample inputs\<close>

text \<open>An oracle that answers the calls of a run from a list, and fails once the list is used up.\<close>

definition scripted :: "(llm_error + pystr) list \<Rightarrow> llm" where
  "scripted answers i req = (if i < length answers then answers ! i else Inl (LlmError []))"

text \<open>A Stage-1 answer that says "this is a sports topic" (it contains the sport keyword).\<close>

definition sport_answer :: pystr where
  "sport_answer =
     [1494, 1492, 1493, 32, 1504, 1493, 1513, 1488, 32, 1505, 1508, 1493, 1512, 1496, 1497, 1489, 1497]"

text \<open>A research answer that names a source, is longer than 150 characters and has no "nothing found" marker.\<close>

definition long_sourced_answer :: pystr where
  "long_sourced_answer = [1489, 1488, 1514, 1512] @ replicate 150 46"

text \<open>A clock reading, and the instants 24 hours and 1 minute, and 23 hours and 59 minutes, before it.\<close>

definition clock_now :: datetime where
  "clock_now = \<lparr>year = 2025, month = 8, day = 23, hour = 10, minute = 0, second = 0, microsecond = 0\<rparr>"

definition day_and_minute_ago :: datetime where
  "day_and_minute_ago =
     \<lparr>year = 2025, month = 8, day = 22, hour = 9, minute = 59, second = 0, microsecond = 0\<rparr>"

definition minute_short_of_a_day_ago :: datetime where
  "minute_short_of_a_day_ago =
     \<lparr>year = 2025, month = 8, day = 22, hour = 10, minute = 1, second = 0, microsecond = 0\<rparr>"

text \<open>Stores: one that never raises, one whose lookups raise; sample rows, articles and candidates.\<close>

definition no_faults :: "statement \<Rightarrow> bool" where
  "no_faults stmt = False"

definition lookups_down :: "statement \<Rightarrow> bool" where
  "lookups_down stmt = (stmt \<noteq> InsertItem \<and> stmt \<noteq> UpdateItem)"

definition make_article :: "pystr \<Rightarrow> pystr \<Rightarrow> article" where
  "make_article t u =
     \<lparr>title = t, url = u, scraped_at = [], row_text = [], listed_datetime = None,
      content = [], clean_content = [], content_length = 0, date_time = [], actual_datetime = []\<rparr>"

definition make_candidate :: "pystr \<Rightarrow> pystr \<Rightarrow> datetime option \<Rightarrow> candidate" where
  "make_candidate t u d = \<lparr>title = t, url = u, scraped_at = [], row_text = [], listed_datetime = d\<rparr>"

definition make_row :: "nat \<Rightarrow> article \<Rightarrow> pystr \<Rightarrow> news_row" where
  "make_row i a h = \<lparr>row_id = i, item = a, hash_id = h, isProcessed = 0, process_data = None\<rparr>"

definition empty_store :: store where
  "empty_store = \<lparr>rows = [], faulty = no_faults\<rparr>"

definition stored_ab_c :: store where
  "stored_ab_c = \<lparr>rows = [make_row 1 (make_article (ascii ''ab'') (ascii ''c'')) (ascii ''abc'')],
                   faulty = no_faults\<rparr>"

definition stored_ab_c_down :: store where
  "stored_ab_c_down = \<lparr>rows = [make_row 1 (make_article (ascii ''ab'') (ascii ''c'')) (ascii ''abc'')],
                        faulty = lookups_down\<rparr>"


text \<open>
  Stand-ins for the library parameters, to run the functions on sample inputs: a digest
  that returns its text, a pattern library that never matches, Unicode tables with no
  digit and no whitespace above 127, a page with a body and no date.
\<close>

definition plain_digest :: "pystr \<Rightarrow> pystr" where
  "plain_digest s = s"

definition plain_regex :: regex_lib where
  "plain_regex = \<lparr>re_sub = (\<lambda>pattern repl multiline s. s), re_match = (\<lambda>pattern s. False)\<rparr>"

definition ascii_only :: unicode_tables where
  "ascii_only = \<lparr>decimal_of = (\<lambda>c. None), whitespace = (\<lambda>c. False)\<rparr>"

definition page_without_date :: page_fetch where
  "page_without_date i u = (Some (ascii ''body''), None)"


text \<open>
  Two listing rows: one with a date alone before a combined date and time, one whose
  combined date and time has day 32.
\<close>

definition row_with_two_dates :: pystr where
  "row_with_two_dates = ascii ''1.1.25 x 02.03.25 10:30 09:15''"

definition row_with_day_32 :: pystr where
  "row_with_day_32 = ascii ''32.01.25 10:30''"



section \<open>Substrings\<close>

lemma any_in_iff: "any_in ks s = (\<exists>k \<in> set ks. py_in k s)"
  by (simp add: any_in_def list_ex_iff)

lemma py_in_prefix: "py_in k (k @ s)"
  by (cases k; cases s) (simp_all add: startswith_def)

lemma py_in_hd: "py_in k s \<Longrightarrow> k \<noteq> [] \<Longrightarrow> hd k \<in> set s"
proof (induction s)
  case Nil
  then show ?case by simp
next
  case (Cons c s)
  then show ?case
    by (cases k) (auto simp add: startswith_def)
qed

section \<open>Stage 1 is a keyword veto\<close>

text \<open>
  C7. When the Stage-1 call returns a text, the article is relevant exactly when the text
  contains none of the five denylisted keywords, and not relevant exactly when it contains
  at least one; the text is returned as the reason and one call was made.
\<close>

theorem relevance_is_keyword_veto:
  assumes "m (length calls) (relevance_request article_content article_title) = Inr relevance_text"
  shows "check_article_relevance m calls article_content article_title =
           ((\<not> (\<exists>k \<in> set non_relevant_keywords. py_in k relevance_text), relevance_text),
            calls @ [relevance_request article_content article_title])"
  using assms by (simp add: check_article_relevance_def messages_create_def any_in_iff)

theorem relevance_is_keyword_veto_witness:
  "check_article_relevance (scripted [Inr sport_answer]) [] [] [] =
     ((False, sport_answer), [relevance_request [] []])
   \<and> check_article_relevance (scripted [Inr (ascii ''politics'')]) [] [] [] =
     ((True, ascii ''politics''), [relevance_request [] []])"
proof -
  have a: "scripted [Inr sport_answer] (length ([]::request list)) (relevance_request [] [])
             = Inr sport_answer"
    by (simp add: scripted_def)
  have b: "scripted [Inr (ascii ''politics'')] (length ([]::request list)) (relevance_request [] [])
             = Inr (ascii ''politics'')"
    by (simp add: scripted_def)
  have c: "\<exists>k \<in> set non_relevant_keywords. py_in k sport_answer"
    by (simp add: non_relevant_keywords_def sport_answer_def startswith_def)
  have d: "\<not> (\<exists>k \<in> set non_relevant_keywords. py_in k (ascii ''politics''))"
    by (simp add: non_relevant_keywords_def ascii_def startswith_def)
  show ?thesis
    using relevance_is_keyword_veto [of "scripted [Inr sport_answer]" "[]" "[]" "[]" sport_answer]
      relevance_is_keyword_veto [of "scripted [Inr (ascii ''politics'')]" "[]" "[]" "[]"
        "ascii ''politics''"]
      a b c d by simp
qed

section \<open>The research quality gate and its single retry\<close>

lemma verify_long_sourced_answer: "verify_research_quality long_sourced_answer"
proof -
  have "py_in [1489, 1488, 1514, 1512] long_sourced_answer"
    unfolding long_sourced_answer_def by (rule py_in_prefix)
  then have a: "any_in quality_indicators long_sourced_answer"
    by (simp add: any_in_iff quality_indicators_def)
  have b: "\<not> py_in not_found_marker long_sourced_answer"
    using py_in_hd [of not_found_marker long_sourced_answer]
    by (auto simp add: not_found_marker_def long_sourced_answer_def)
  have c: "length long_sourced_answer = 154"
    by (simp add: long_sourced_answer_def)
  show ?thesis
    using a b c by (simp add: verify_research_quality_def)
qed

text \<open>
  C4. A research result passes the gate exactly when it contains one of the source
  markers, is not shorter than 150 characters and does not contain the "nothing found"
  marker. When the first call of Stage 2 returns a result that passes, that result is
  returned and no further call is made. When it returns a result that fails, exactly one
  more call is made, the retry, and whatever text the retry returns is returned, with no
  second check and no second retry.
\<close>

theorem research_gate_single_retry:
  "(verify_research_quality r \<longleftrightarrow>
       (\<exists>k \<in> set quality_indicators. py_in k r) \<and> \<not> length r < 150 \<and> \<not> py_in not_found_marker r)
   \<and> (m (length calls) (research_request main_topic article_summary) = Inr r \<longrightarrow>
        (verify_research_quality r \<longrightarrow>
           research_topic m calls main_topic article_summary =
             (r, calls @ [research_request main_topic article_summary]))
      \<and> (\<not> verify_research_quality r \<longrightarrow>
           snd (research_topic m calls main_topic article_summary) =
             calls @ [research_request main_topic article_summary, retry_request main_topic]
         \<and> (\<forall>r2. m (Suc (length calls)) (retry_request main_topic) = Inr r2 \<longrightarrow>
               fst (research_topic m calls main_topic article_summary) = r2)))"
  by (auto simp add: verify_research_quality_def any_in_iff research_topic_def messages_create_def
           split: sum.splits)

text \<open>
  The witness: a first answer that is too short is followed by one retry, whose empty
  answer (it fails the gate) is returned; a first answer that passes is returned after
  one call.
\<close>

theorem research_gate_single_retry_witness:
  "research_topic (scripted [Inr (ascii ''short''), Inr []]) [] [] [] =
     ([], [research_request [] [], retry_request []])
   \<and> research_topic (scripted [Inr long_sourced_answer, Inr []]) [] [] [] =
     (long_sourced_answer, [research_request [] []])"
proof -
  let ?m = "scripted [Inr (ascii ''short''), Inr []]"
  let ?n = "scripted [Inr long_sourced_answer, Inr []]"
  have a: "?m (length ([]::request list)) (research_request [] []) = Inr (ascii ''short'')"
    by (simp add: scripted_def)
  have b: "\<not> verify_research_quality (ascii ''short'')"
    by (simp add: verify_research_quality_def ascii_def)
  have c: "?m (Suc (length ([]::request list))) (retry_request []) = Inr []"
    by (simp add: scripted_def)
  have d: "?n (length ([]::request list)) (research_request [] []) = Inr long_sourced_answer"
    by (simp add: scripted_def)
  from research_gate_single_retry [of "ascii ''short''" ?m "[]" "[]" "[]"] a b c
  have 1: "research_topic ?m [] [] [] = ([], [research_request [] [], retry_request []])"
    by (simp add: prod_eq_iff)
  from research_gate_single_retry [of long_sourced_answer ?n "[]" "[]" "[]"] d
    verify_long_sourced_answer
  have 2: "research_topic ?n [] [] [] = (long_sourced_answer, [research_request [] []])"
    by simp
  from 1 2 show ?thesis by simp
qed

section \<open>The freshness window\<close>

lemma sub_micros_day_and_minute:
  "sub_micros clock_now day_and_minute_ago = (24 * 3600 + 60) * 1000000"
  by (simp add: sub_micros_def clock_now_def day_and_minute_ago_def toordinal_def
        days_before_year_def days_before_month_def is_leap_def)

lemma sub_micros_minute_short:
  "sub_micros clock_now minute_short_of_a_day_ago = (24 * 3600 - 60) * 1000000"
  by (simp add: sub_micros_def clock_now_def minute_short_of_a_day_ago_def toordinal_def
        days_before_year_def days_before_month_def is_leap_def)

text \<open>
  C8. A missing timestamp is rejected. A timestamp \<open>t\<close> is accepted exactly when the
  clock minus \<open>t\<close> is at most 24 hours; so one that lies 24 hours and 1 minute back is
  rejected and one that lies 23 hours and 59 minutes back is accepted.
\<close>

theorem freshness_window_24h:
  "is_within_24_hours now None = False
   \<and> (is_within_24_hours now (Some t) \<longleftrightarrow> sub_micros now t \<le> 24 * 3600 * 1000000)
   \<and> (sub_micros now t = (24 * 3600 + 60) * 1000000 \<longrightarrow> \<not> is_within_24_hours now (Some t))
   \<and> (sub_micros now t = (24 * 3600 - 60) * 1000000 \<longrightarrow> is_within_24_hours now (Some t))"
  by (simp add: is_within_24_hours_def)

theorem freshness_window_24h_witness:
  "\<not> is_within_24_hours clock_now (Some day_and_minute_ago)
   \<and> is_within_24_hours clock_now (Some minute_short_of_a_day_ago)"
  using freshness_window_24h [of clock_now day_and_minute_ago]
        freshness_window_24h [of clock_now minute_short_of_a_day_ago]
        sub_micros_day_and_minute sub_micros_minute_short
  by simp

section \<open>The deduplication gate\<close>

lemma check_article_exists_in_db_iff:
  assumes "\<not> faulty st SelectByUrl" "\<not> faulty st SelectByTitle"
  shows "check_article_exists_in_db st t u \<longleftrightarrow>
           (\<exists>r \<in> set (rows st). url (item r) = u) \<or> (\<exists>r \<in> set (rows st). title (item r) = t)"
  using assms by (auto simp add: check_article_exists_in_db_def select_count_def filter_empty_conv)

lemma save_article_to_db_True:
  assumes "save_article_to_db md5 st0 a = (True, st)"
  shows "\<exists>r. rows st = rows st0 @ [r] \<and> item r = a
             \<and> hash_id r = generate_article_hash md5 (title a) (url a) \<and> faulty st = faulty st0"
  using assms
  by (auto simp add: save_article_to_db_def insert_item_def Let_def split: if_splits sum.splits)

lemma save_into_empty_store:
  "save_article_to_db plain_digest empty_store (make_article (ascii ''ab'') (ascii ''c'')) =
     (True, stored_ab_c)"
  by (simp add: save_article_to_db_def insert_item_def is_article_exists_def select_count_def
        empty_store_def stored_ab_c_def no_faults_def generate_article_hash_def plain_digest_def make_article_def
        make_row_def ascii_def)

text \<open>
  C3. When the two lookups do not raise, the pre-check reports "exists" exactly when some
  stored row has the candidate's url or some stored row has the candidate's title. In
  particular, once an article has been saved, a check of its title and url reports
  "exists", and so does a check of its title with any other url.
\<close>

theorem dedup_precheck_url_or_title:
  assumes "\<not> faulty st SelectByUrl" and "\<not> faulty st SelectByTitle"
  shows "(check_article_exists_in_db st t u \<longleftrightarrow>
            (\<exists>r \<in> set (rows st). url (item r) = u) \<or> (\<exists>r \<in> set (rows st). title (item r) = t))
         \<and> (\<forall>md5 st0 a u'. save_article_to_db md5 st0 a = (True, st) \<longrightarrow>
               check_article_exists_in_db st (title a) (url a)
             \<and> check_article_exists_in_db st (title a) u')"
proof (intro conjI allI impI)
  show "check_article_exists_in_db st t u \<longleftrightarrow>
          (\<exists>r \<in> set (rows st). url (item r) = u) \<or> (\<exists>r \<in> set (rows st). title (item r) = t)"
    using assms by (rule check_article_exists_in_db_iff)
next
  fix md5 st0 a u'
  assume "save_article_to_db md5 st0 a = (True, st)"
  then obtain r where "rows st = rows st0 @ [r]" "item r = a"
    using save_article_to_db_True by blast
  then have "\<exists>r \<in> set (rows st). title (item r) = title a" by auto
  then show "check_article_exists_in_db st (title a) (url a)"
    and "check_article_exists_in_db st (title a) u'"
    using check_article_exists_in_db_iff [OF assms] by blast+
qed

theorem dedup_precheck_url_or_title_witness:
  "check_article_exists_in_db stored_ab_c (ascii ''ab'') (ascii ''c'')
   \<and> check_article_exists_in_db stored_ab_c (ascii ''ab'') (ascii ''other'')
   \<and> \<not> check_article_exists_in_db stored_ab_c (ascii ''a'') (ascii ''bc'')"
proof -
  have f: "\<not> faulty stored_ab_c SelectByUrl" "\<not> faulty stored_ab_c SelectByTitle"
    by (simp_all add: stored_ab_c_def no_faults_def)
  have t: "title (make_article (ascii ''ab'') (ascii ''c'')) = ascii ''ab''"
          "url (make_article (ascii ''ab'') (ascii ''c'')) = ascii ''c''"
    by (simp_all add: make_article_def)
  have n: "\<not> ((\<exists>r \<in> set (rows stored_ab_c). url (item r) = ascii ''bc'')
             \<or> (\<exists>r \<in> set (rows stored_ab_c). title (item r) = ascii ''a''))"
    by (simp add: stored_ab_c_def make_row_def make_article_def ascii_def)
  from dedup_precheck_url_or_title [OF f, of "ascii ''a''" "ascii ''bc''"] save_into_empty_store t n
  show ?thesis by metis
qed

text \<open>
  C9. When the lookup raises (the query by url, or the query by title after the query by
  url found nothing), the pre-check answers "does not exist", whatever the store holds.
  The candidate is then treated as new: its page is fetched and, when the page has
  content, the article is passed to the save and appended to the batch.
\<close>

theorem dedup_precheck_fails_open:
  assumes "faulty st SelectByUrl
           \<or> (\<not> (\<exists>r \<in> set (rows st). url (item r) = url c) \<and> faulty st SelectByTitle)"
  shows "check_article_exists_in_db st (title c) (url c) = False
         \<and> (\<forall>content' article_datetime. fetch i (url c) = (Some content', article_datetime)
               \<longrightarrow> content' \<noteq> [] \<longrightarrow>
               fst (process_candidates re U md5 fetch i st (c # cs)) =
                 with_content re U c content' article_datetime
                 # fst (process_candidates re U md5 fetch (Suc i)
                          (snd (save_article_to_db md5 st (with_content re U c content' article_datetime))) cs))"
proof -
  have a: "check_article_exists_in_db st (title c) (url c) = False"
    using assms
    by (auto simp add: check_article_exists_in_db_def select_count_def filter_empty_conv)
  show ?thesis
    using a by (auto simp add: Let_def split: prod.splits)
qed

theorem dedup_precheck_fails_open_witness:
  "\<not> check_article_exists_in_db stored_ab_c_down (ascii ''ab'') (ascii ''c'')
   \<and> fst (process_candidates plain_regex ascii_only plain_digest page_without_date 0 stored_ab_c_down
            [make_candidate (ascii ''ab'') (ascii ''c'') None]) =
       [with_content plain_regex ascii_only (make_candidate (ascii ''ab'') (ascii ''c'') None)
          (ascii ''body'') None]"
proof -
  let ?c = "make_candidate (ascii ''ab'') (ascii ''c'') None"
  have f: "faulty stored_ab_c_down SelectByUrl
           \<or> (\<not> (\<exists>r \<in> set (rows stored_ab_c_down). url (item r) = url ?c)
               \<and> faulty stored_ab_c_down SelectByTitle)"
    by (simp add: stored_ab_c_down_def lookups_down_def)
  have t: "title ?c = ascii ''ab''" "url ?c = ascii ''c''"
    by (simp_all add: make_candidate_def)
  have p: "page_without_date 0 (url ?c) = (Some (ascii ''body''), None)"
    by (simp add: page_without_date_def)
  have b: "ascii ''body'' \<noteq> []"
    by (simp add: ascii_def)
  note th = dedup_precheck_fails_open [OF f, of page_without_date 0 plain_regex ascii_only
      plain_digest "[]"]
  from th have 1: "check_article_exists_in_db stored_ab_c_down (title ?c) (url ?c) = False"
    by (rule conjunct1)
  have 2: "fst (process_candidates plain_regex ascii_only plain_digest page_without_date 0
                  stored_ab_c_down [?c]) =
             with_content plain_regex ascii_only ?c (ascii ''body'') None
             # fst (process_candidates plain_regex ascii_only plain_digest page_without_date (Suc 0)
                      (snd (save_article_to_db plain_digest stored_ab_c_down
                              (with_content plain_regex ascii_only ?c (ascii ''body'') None))) [])"
    by (rule th [THEN conjunct2, rule_format, OF p b])
  show ?thesis
    using 1 2 t by (simp del: process_candidates.simps(2))
qed

text \<open>
  C10. The fingerprint is the digest of the title followed directly by the url, so it
  depends on the concatenation only: the distinct pairs ("ab", "c") and ("a", "bc") have
  the same fingerprint. When two articles have equal concatenations and the first was
  saved, saving the second is refused and the store is unchanged; when the lookup by
  fingerprint does not raise, it is the existence check on the fingerprint that refuses it.
\<close>

theorem fingerprint_of_concatenation:
  "generate_article_hash md5 t u = md5 (t @ u)
   \<and> (ascii ''ab'', ascii ''c'') \<noteq> (ascii ''a'', ascii ''bc'')
   \<and> generate_article_hash md5 (ascii ''ab'') (ascii ''c'')
       = generate_article_hash md5 (ascii ''a'') (ascii ''bc'')
   \<and> (title a @ url a = title b @ url b \<longrightarrow> save_article_to_db md5 st a = (True, st') \<longrightarrow>
        save_article_to_db md5 st' b = (False, st')
      \<and> (\<not> faulty st' SelectByHash \<longrightarrow>
           is_article_exists st' (generate_article_hash md5 (title b) (url b))))"
proof (intro conjI impI)
  show "generate_article_hash md5 t u = md5 (t @ u)"
    by (simp add: generate_article_hash_def)
  show "(ascii ''ab'', ascii ''c'') \<noteq> (ascii ''a'', ascii ''bc'')"
    by (simp add: ascii_def)
  show "generate_article_hash md5 (ascii ''ab'') (ascii ''c'')
          = generate_article_hash md5 (ascii ''a'') (ascii ''bc'')"
    by (simp add: generate_article_hash_def ascii_def)
next
  assume eq: "title a @ url a = title b @ url b"
    and sv: "save_article_to_db md5 st a = (True, st')"
  from save_article_to_db_True [OF sv] obtain r where
    r: "rows st' = rows st @ [r]" "hash_id r = generate_article_hash md5 (title a) (url a)"
    by blast
  have h: "generate_article_hash md5 (title b) (url b) = hash_id r"
    using r eq by (simp add: generate_article_hash_def)
  show "save_article_to_db md5 st' b = (False, st')"
    using r h
    by (auto simp add: save_article_to_db_def insert_item_def is_article_exists_def
          select_count_def Let_def list_ex_iff split: sum.splits)
  show "is_article_exists st' (generate_article_hash md5 (title b) (url b))"
    if "\<not> faulty st' SelectByHash"
    using that r h by (simp add: is_article_exists_def select_count_def filter_empty_conv)
qed

theorem fingerprint_of_concatenation_witness:
  "save_article_to_db plain_digest stored_ab_c (make_article (ascii ''a'') (ascii ''bc''))
     = (False, stored_ab_c)
   \<and> is_article_exists stored_ab_c
       (generate_article_hash plain_digest (ascii ''a'') (ascii ''bc''))"
proof -
  let ?a = "make_article (ascii ''ab'') (ascii ''c'')"
  let ?b = "make_article (ascii ''a'') (ascii ''bc'')"
  have e: "title ?a @ url ?a = title ?b @ url ?b"
    by (simp add: make_article_def ascii_def)
  have f: "\<not> faulty stored_ab_c SelectByHash"
    by (simp add: stored_ab_c_def no_faults_def)
  have t: "title ?b = ascii ''a''" "url ?b = ascii ''bc''"
    by (simp_all add: make_article_def)
  from fingerprint_of_concatenation [of plain_digest "[]" "[]" ?a ?b empty_store stored_ab_c]
    e save_into_empty_store f t
  show ?thesis by simp
qed

section \<open>The content cleaner\<close>

text \<open>
  C5. For every input, every pattern library and every Unicode table, the cleaner returns
  a text that is not empty and not longer than 1000 characters plus the three of the
  ellipsis.
\<close>

theorem cleaner_nonempty_bounded:
  "clean_article_content re U content' \<noteq> []
   \<and> length (clean_article_content re U content') \<le> 1000 + length (ascii ''...'')"
  by (simp add: clean_article_content_def Let_def no_content_placeholder_def link_placeholder_def ascii_def)

section \<open>An article that is not relevant\<close>



section \<open>Datetime recovery: the combined pattern\<close>

text \<open>What a successful match says about the captured groups.\<close>

lemma first_some_map:
  "first_some (map f xs) = Some y \<Longrightarrow> \<exists>x \<in> set xs. f x = Some y"
proof (induction xs)
  case Nil
  then show ?case by simp
next
  case (Cons x xs)
  then show ?case by (cases "f x") auto
qed

lemma counts_bounds:
  assumes "k \<in> set (counts U p s)"
  shows "at_least p \<le> k" and "k \<le> length (takeWhile (in_class U (cls p)) s)"
    and "at_most p = Some h \<Longrightarrow> k \<le> h"
  using assms by (auto simp add: counts_def Let_def split: option.splits)

lemma match_here_Cons:
  assumes "match_here U (p # ps) s = Some gs"
  shows "\<exists>k \<in> set (counts U p s). \<exists>gs'. match_here U ps (drop k s) = Some gs'
           \<and> gs = (if captured p then take k s # gs' else gs')"
proof -
  from assms obtain k where k: "k \<in> set (counts U p s)"
    and r: "(case match_here U ps (drop k s) of None \<Rightarrow> None
             | Some groups \<Rightarrow> Some (if captured p then take k s # groups else groups)) = Some gs"
    using first_some_map by fastforce
  then show ?thesis
    by (cases "match_here U ps (drop k s)") (auto intro!: bexI [of _ k])
qed

lemma take_run_in_class:
  assumes "k \<le> length (takeWhile P s)"
  shows "length (take k s) = k" and "\<forall>c \<in> set (take k s). P c"
proof -
  have "take k s = take k (takeWhile P s)"
    using assms
    by (metis takeWhile_dropWhile_id take_append diff_is_0_eq take_0 append_Nil2)
  then show "length (take k s) = k" and "\<forall>c \<in> set (take k s). P c"
    using assms by (auto dest: in_set_takeD set_takeWhileD)
qed


lemma match_digit_group:
  assumes "match_here U (capture Digit lo hi # ps) s = Some gs"
  shows "\<exists>g gs' rest. gs = g # gs' \<and> lo \<le> length g \<and> length g \<le> hi
           \<and> (\<forall>c \<in> set g. digit_val U c \<noteq> None) \<and> match_here U ps rest = Some gs'"
proof -
  let ?p = "capture Digit lo hi"
  from match_here_Cons [OF assms] obtain k gs' where
    k: "k \<in> set (counts U ?p s)" and m: "match_here U ps (drop k s) = Some gs'"
    and g: "gs = take k s # gs'"
    by (auto simp add: capture_def)
  have run: "k \<le> length (takeWhile (in_class U Digit) s)"
    using counts_bounds(2) [OF k] by (simp add: capture_def)
  have "lo \<le> k" "k \<le> hi"
    using counts_bounds(1) [OF k] counts_bounds(3) [OF k, of hi] by (simp_all add: capture_def)
  moreover have "length (take k s) = k" "\<forall>c \<in> set (take k s). in_class U Digit c"
    using take_run_in_class [OF run] by simp_all
  ultimately show ?thesis
    using m g by auto
qed

lemma match_uncaptured:
  assumes "match_here U (p # ps) s = Some gs" and "\<not> captured p"
  shows "\<exists>rest. match_here U ps rest = Some gs"
  using match_here_Cons [OF assms(1)] assms(2) by auto

lemma re_search_match:
  "re_search U ps s = Some gs \<Longrightarrow> \<exists>t. match_here U ps t = Some gs"
proof (induction s)
  case Nil
  then show ?case by auto
next
  case (Cons c s)
  then show ?case by (cases "match_here U ps (c # s)") auto
qed

lemma int_digits_Some:
  "\<forall>c \<in> set s. digit_val U c \<noteq> None \<Longrightarrow> \<exists>n. int_digits U acc s = Some n"
  by (induction s arbitrary: acc) auto

lemma py_int_Some:
  "s \<noteq> [] \<Longrightarrow> \<forall>c \<in> set s. digit_val U c \<noteq> None \<Longrightarrow> \<exists>n. py_int U s = Some n"
  by (simp add: py_int_def int_digits_Some)

lemma int_digits_shift:
  "int_digits U acc s = Some n \<Longrightarrow> int_digits U (acc + b) s = Some (n + b * 10 ^ length s)"
proof (induction s arbitrary: acc b)
  case Nil
  then show ?case by simp
next
  case (Cons c s)
  then obtain v where v: "digit_val U c = Some v" and r: "int_digits U (acc * 10 + v) s = Some n"
    by (auto split: option.splits)
  have "int_digits U ((acc * 10 + v) + b * 10) s = Some (n + (b * 10) * 10 ^ length s)"
    using Cons.IH [OF r] .
  then show ?case
    using v by (simp add: algebra_simps)
qed

lemma py_int_year:
  assumes "py_int U y = Some Y" and "length y = 2"
  shows "py_int U (ascii ''20'' @ y) = Some (2000 + Y)"
proof -
  from assms have y: "int_digits U 0 y = Some Y"
    by (auto simp add: py_int_def split: if_splits)
  have "int_digits U (0 + 20) y = Some (Y + 20 * 10 ^ length y)"
    using int_digits_shift [OF y] .
  then show ?thesis
    using assms(2) by (simp add: py_int_def ascii_def digit_val_def)
qed

lemma date_time_pattern_groups:
  assumes "re_search U date_time_pattern fragment = Some gs"
  shows "\<exists>d m y h mi. gs = [d, m, y, h, mi]
           \<and> d \<noteq> [] \<and> m \<noteq> [] \<and> length y = 2 \<and> h \<noteq> [] \<and> mi \<noteq> []
           \<and> (\<forall>g \<in> {d, m, y, h, mi}. \<forall>c \<in> set g. digit_val U c \<noteq> None)"
proof -
  from re_search_match [OF assms] obtain t where
    "match_here U date_time_pattern t = Some gs" by blast
  then have 0: "match_here U [capture Digit 1 2, lit 46, capture Digit 1 2, lit 46, capture Digit 2 2,
      \<lparr>cls = Space, at_least = 1, at_most = None, captured = False\<rparr>,
      capture Digit 1 2, lit 58, capture Digit 2 2] t = Some gs"
    by (simp add: date_time_pattern_def)
  from match_digit_group [OF 0] obtain d g1 t1 where
    d: "gs = d # g1" "1 \<le> length d" "\<forall>c \<in> set d. digit_val U c \<noteq> None"
    and 1: "match_here U [lit 46, capture Digit 1 2, lit 46, capture Digit 2 2,
      \<lparr>cls = Space, at_least = 1, at_most = None, captured = False\<rparr>,
      capture Digit 1 2, lit 58, capture Digit 2 2] t1 = Some g1"
    by blast
  from match_uncaptured [OF 1] obtain t2 where
    2: "match_here U [capture Digit 1 2, lit 46, capture Digit 2 2,
      \<lparr>cls = Space, at_least = 1, at_most = None, captured = False\<rparr>,
      capture Digit 1 2, lit 58, capture Digit 2 2] t2 = Some g1"
    by (auto simp add: lit_def)
  from match_digit_group [OF 2] obtain m g2 t3 where
    m: "g1 = m # g2" "1 \<le> length m" "\<forall>c \<in> set m. digit_val U c \<noteq> None"
    and 3: "match_here U [lit 46, capture Digit 2 2,
      \<lparr>cls = Space, at_least = 1, at_most = None, captured = False\<rparr>,
      capture Digit 1 2, lit 58, capture Digit 2 2] t3 = Some g2"
    by blast
  from match_uncaptured [OF 3] obtain t4 where
    4: "match_here U [capture Digit 2 2,
      \<lparr>cls = Space, at_least = 1, at_most = None, captured = False\<rparr>,
      capture Digit 1 2, lit 58, capture Digit 2 2] t4 = Some g2"
    by (auto simp add: lit_def)
  from match_digit_group [OF 4] obtain y g3 t5 where
    y: "g2 = y # g3" "2 \<le> length y" "length y \<le> 2" "\<forall>c \<in> set y. digit_val U c \<noteq> None"
    and 5: "match_here U [\<lparr>cls = Space, at_least = 1, at_most = None, captured = False\<rparr>,
      capture Digit 1 2, lit 58, capture Digit 2 2] t5 = Some g3"
    by blast
  from match_uncaptured [OF 5] obtain t6 where
    6: "match_here U [capture Digit 1 2, lit 58, capture Digit 2 2] t6 = Some g3"
    by auto
  from match_digit_group [OF 6] obtain h g4 t7 where
    h: "g3 = h # g4" "1 \<le> length h" "\<forall>c \<in> set h. digit_val U c \<noteq> None"
    and 7: "match_here U [lit 58, capture Digit 2 2] t7 = Some g4"
    by blast
  from match_uncaptured [OF 7] obtain t8 where
    8: "match_here U [capture Digit 2 2] t8 = Some g4"
    by (auto simp add: lit_def)
  from match_digit_group [OF 8] obtain mi g5 t9 where
    mi: "g4 = mi # g5" "2 \<le> length mi" "\<forall>c \<in> set mi. digit_val U c \<noteq> None"
    and 9: "match_here U [] t9 = Some g5"
    by blast
  from 9 have "g5 = []" by simp
  with d m y h mi show ?thesis by auto
qed

text \<open>
  C6, as the code has it. When the combined pattern matches, its five groups read as
  numbers, and when these numbers are a date and a time of day that the constructor
  accepts, recovery returns exactly that day, month, hour and minute with the year
  2000 + YY, whatever the other strategies would find. (When the constructor rejects
  them, the combined strategy returns nothing and the separate strategies go on.)
\<close>

theorem combined_pattern_first:
  assumes "re_search U date_time_pattern fragment = Some [d, m, y, h, mi]"
  shows "\<exists>D M Y H MI.
           py_int U d = Some D \<and> py_int U m = Some M \<and> py_int U y = Some Y
         \<and> py_int U h = Some H \<and> py_int U mi = Some MI
         \<and> (\<forall>dt. py_datetime (2000 + Y) M D H MI = Some dt \<longrightarrow>
               extract_actual_datetime_from_row U now fragment = Some dt
             \<and> dt = \<lparr>year = 2000 + Y, month = M, day = D, hour = H, minute = MI,
                      second = 0, microsecond = 0\<rparr>)
         \<and> (py_datetime (2000 + Y) M D H MI = None \<longrightarrow>
               extract_actual_datetime_from_row U now fragment =
                 separate_strategies U now fragment)"
proof -
  from date_time_pattern_groups [OF assms]
  have ne: "d \<noteq> []" "m \<noteq> []" "length y = 2" "h \<noteq> []" "mi \<noteq> []"
    and dg: "\<forall>c \<in> set d. digit_val U c \<noteq> None" "\<forall>c \<in> set m. digit_val U c \<noteq> None"
      "\<forall>c \<in> set y. digit_val U c \<noteq> None" "\<forall>c \<in> set h. digit_val U c \<noteq> None"
      "\<forall>c \<in> set mi. digit_val U c \<noteq> None"
    by auto
  from ne(3) have "y \<noteq> []" by auto
  with ne dg obtain D M Y H MI where
    v: "py_int U d = Some D" "py_int U m = Some M" "py_int U y = Some Y"
       "py_int U h = Some H" "py_int U mi = Some MI"
    using py_int_Some by metis
  have yr: "py_int U (ascii ''20'' @ y) = Some (2000 + Y)"
    using py_int_year [OF v(3) ne(3)] .
  have valid: "\<forall>dt. py_datetime (2000 + Y) M D H MI = Some dt \<longrightarrow>
                 extract_actual_datetime_from_row U now fragment = Some dt
               \<and> dt = \<lparr>year = 2000 + Y, month = M, day = D, hour = H, minute = MI,
                        second = 0, microsecond = 0\<rparr>"
    using assms v yr
    by (auto simp add: extract_actual_datetime_from_row_def try_datetime_def py_datetime_def
          split: if_splits)
  have invalid: "py_datetime (2000 + Y) M D H MI = None \<longrightarrow>
                   extract_actual_datetime_from_row U now fragment =
                     separate_strategies U now fragment"
    using assms v yr
    by (simp add: extract_actual_datetime_from_row_def try_datetime_def)
  show ?thesis
    by (intro exI conjI; (rule v | rule valid | rule invalid))
qed

text \<open>
  The witness: in a row with a date alone before the combined date and time, recovery
  returns the combined one, where the separate strategies would take the first date.
\<close>

lemma search_two_dates:
  "re_search ascii_only date_time_pattern row_with_two_dates =
     Some [ascii ''02'', ascii ''03'', ascii ''25'', ascii ''10'', ascii ''30'']"
  unfolding row_with_two_dates_def by code_simp


lemma py_int_samples:
  "py_int ascii_only (ascii ''02'') = Some 2" "py_int ascii_only (ascii ''03'') = Some 3"
  "py_int ascii_only (ascii ''25'') = Some 25" "py_int ascii_only (ascii ''10'') = Some 10"
  "py_int ascii_only (ascii ''30'') = Some 30"
  by (simp_all add: py_int_def ascii_def digit_val_def)

lemma separate_two_dates:
  "separate_strategies ascii_only clock_now row_with_two_dates =
     Some \<lparr>year = 2025, month = 1, day = 1, hour = 10, minute = 30, second = 0, microsecond = 0\<rparr>"
  unfolding row_with_two_dates_def by code_simp

theorem combined_pattern_first_witness:
  "extract_actual_datetime_from_row ascii_only clock_now row_with_two_dates =
     Some \<lparr>year = 2025, month = 3, day = 2, hour = 10, minute = 30, second = 0, microsecond = 0\<rparr>
   \<and> separate_strategies ascii_only clock_now row_with_two_dates =
     Some \<lparr>year = 2025, month = 1, day = 1, hour = 10, minute = 30, second = 0, microsecond = 0\<rparr>"
proof -
  from combined_pattern_first [OF search_two_dates, of clock_now]
  obtain D M Y H MI where
    v: "py_int ascii_only (ascii ''02'') = Some D" "py_int ascii_only (ascii ''03'') = Some M"
       "py_int ascii_only (ascii ''25'') = Some Y" "py_int ascii_only (ascii ''10'') = Some H"
       "py_int ascii_only (ascii ''30'') = Some MI"
    and r: "\<And>dt. py_datetime (2000 + Y) M D H MI = Some dt \<Longrightarrow>
              extract_actual_datetime_from_row ascii_only clock_now row_with_two_dates = Some dt"
    by blast
  from v py_int_samples have e: "D = 2" "M = 3" "Y = 25" "H = 10" "MI = 30"
    by simp_all
  have "py_datetime (2000 + Y) M D H MI =
          Some \<lparr>year = 2025, month = 3, day = 2, hour = 10, minute = 30, second = 0, microsecond = 0\<rparr>"
    unfolding e by (simp add: py_datetime_def days_in_month_def)
  from r [OF this] separate_two_dates show ?thesis by simp
qed

text \<open>
  The claim as worded fails: this row contains the combined pattern (the search finds
  day 32, month 01, year 25, 10:30) and recovery reports that no datetime was found.
\<close>

theorem day_32_not_recovered:
  "re_search ascii_only date_time_pattern row_with_day_32 =
     Some [ascii ''32'', ascii ''01'', ascii ''25'', ascii ''10'', ascii ''30'']
   \<and> extract_actual_datetime_from_row ascii_only clock_now row_with_day_32 = None"
  unfolding row_with_day_32_def by code_simp

section \<open>The order of the batch\<close>



lemma sort_reverse_descending: "sorted (rev (map k (sort_reverse k xs)))"
  by (simp add: sort_reverse_def rev_map)



end
